theory Spec2Isabelle
  imports Complex_Main "HOL-Library.Sublist" "HOL-Library.AList"
begin

section \<open>Texts\<close>

text \<open>
  A Python \<open>str\<close> is a sequence of code points. Here a text is a \<open>string\<close> whose
  characters stand for the code points U+0000 to U+00FF, one \<open>char\<close> per code point
  (so \<open>length\<close> counts what Python's \<open>len\<close> counts). The character tables below
  are those of Python 3 on that range.
\<close>

definition code :: "char \<Rightarrow> nat" where
  "code c = of_char c"

text \<open>\<open>str.isspace\<close>, which is also the class \<open>\s\<close> and what \<open>strip\<close> and \<open>split\<close> cut.\<close>

definition py_isspace :: "char \<Rightarrow> bool" where
  "py_isspace c = (let n = code c in
     (9 \<le> n \<and> n \<le> 13) \<or> (28 \<le> n \<and> n \<le> 32) \<or> n = 133 \<or> n = 160)"

text \<open>The class \<open>\d\<close>: the decimal digits.\<close>

definition py_isdigit :: "char \<Rightarrow> bool" where
  "py_isdigit c = (let n = code c in 48 \<le> n \<and> n \<le> 57)"

text \<open>The class \<open>\w\<close>: alphanumeric code points and the underscore.\<close>

definition py_isword :: "char \<Rightarrow> bool" where
  "py_isword c = (let n = code c in
     (48 \<le> n \<and> n \<le> 57) \<or> (65 \<le> n \<and> n \<le> 90) \<or> n = 95 \<or> (97 \<le> n \<and> n \<le> 122) \<or>
     n = 170 \<or> n = 178 \<or> n = 179 \<or> n = 181 \<or> n = 185 \<or> n = 186 \<or>
     (188 \<le> n \<and> n \<le> 190) \<or> (192 \<le> n \<and> n \<le> 214) \<or> (216 \<le> n \<and> n \<le> 246) \<or>
     (248 \<le> n \<and> n \<le> 255))"

text \<open>\<open>str.lower\<close>, character by character: it keeps the length on this range.\<close>

definition lower_char :: "char \<Rightarrow> char" where
  "lower_char c = (let n = code c in
     if (65 \<le> n \<and> n \<le> 90) \<or> (192 \<le> n \<and> n \<le> 222 \<and> n \<noteq> 215) then char_of (n + 32) else c)"

definition py_lower :: "string \<Rightarrow> string" where
  "py_lower s = map lower_char s"

text \<open>
  \<open>str.upper\<close>. U+00DF becomes the two letters SS. The upper-case images of U+00B5 and
  U+00FF lie beyond U+00FF; they are kept as they are, which gives the same answer
  wherever the result is only searched for ASCII text, the one use made of it here.
\<close>

definition upper_char :: "char \<Rightarrow> string" where
  "upper_char c = (let n = code c in
     if (97 \<le> n \<and> n \<le> 122) \<or> (224 \<le> n \<and> n \<le> 254 \<and> n \<noteq> 247) then [char_of (n - 32)]
     else if n = 223 then ''SS'' else [c])"

definition py_upper :: "string \<Rightarrow> string" where
  "py_upper s = concat (map upper_char s)"

text \<open>\<open>str.find\<close>: the lowest index at which \<open>sub\<close> occurs, or \<open>-1\<close>.\<close>

fun find_index_of :: "string \<Rightarrow> string \<Rightarrow> nat option" where
  "find_index_of sub [] = (if sub = [] then Some 0 else None)"
| "find_index_of sub (c # cs) =
     (if prefix sub (c # cs) then Some 0 else map_option Suc (find_index_of sub cs))"

definition py_find :: "string \<Rightarrow> string \<Rightarrow> int" where
  "py_find s sub = (case find_index_of sub s of None \<Rightarrow> - 1 | Some k \<Rightarrow> int k)"

text \<open>\<open>str.split()\<close> with no argument: the maximal runs of non-blank characters.\<close>

fun split_ws :: "string \<Rightarrow> string \<Rightarrow> string list" where
  "split_ws w [] = (if w = [] then [] else [w])"
| "split_ws w (c # cs) =
     (if py_isspace c then (if w = [] then split_ws [] cs else w # split_ws [] cs)
      else split_ws (w @ [c]) cs)"

definition py_split :: "string \<Rightarrow> string list" where
  "py_split s = split_ws [] s"

text \<open>
  A slice \<open>s[a:b]\<close> with integer bounds: a negative bound counts from the end, and both
  are clipped to the text.
\<close>

definition slice_bound :: "'a list \<Rightarrow> int \<Rightarrow> nat" where
  "slice_bound s i =
     (let n = int (length s); j = (if i < 0 then i + n else i)
      in if j < 0 then 0 else if n < j then length s else nat j)"

definition py_slice :: "'a list \<Rightarrow> int \<Rightarrow> int \<Rightarrow> 'a list" where
  "py_slice s a b = (let i = slice_bound s a; j = slice_bound s b in take (j - i) (drop i s))"

text \<open>\<open>str.strip()\<close> with no argument removes the blanks at both ends.\<close>

definition py_strip :: "string \<Rightarrow> string" where
  "py_strip s = rev (dropWhile py_isspace (rev (dropWhile py_isspace s)))"

text \<open>
  \<open>str.replace(old, new)\<close> for a non-empty \<open>old\<close>: the occurrences are taken from
  left to right and do not overlap.
\<close>

function py_replace :: "string \<Rightarrow> string \<Rightarrow> string \<Rightarrow> string" where
  "py_replace old new [] = []"
| "py_replace old new (c # cs) =
     (if old \<noteq> [] \<and> prefix old (c # cs)
      then new @ py_replace old new (drop (length old) (c # cs))
      else c # py_replace old new cs)"
  by pat_completeness auto
termination
  by (relation "measure (\<lambda>(old, new, s). length s)") auto

text \<open>\<open>str.split(sep)\<close> at a one-character separator: always at least one piece.\<close>

fun split_at :: "char \<Rightarrow> string \<Rightarrow> string \<Rightarrow> string list" where
  "split_at d w [] = [w]"
| "split_at d w (c # cs) = (if c = d then w # split_at d [] cs else split_at d (w @ [c]) cs)"

definition py_split_on :: "char \<Rightarrow> string \<Rightarrow> string list" where
  "py_split_on d s = split_at d [] s"

text \<open>\<open>sep.join(pieces)\<close>.\<close>

fun py_join :: "string \<Rightarrow> string list \<Rightarrow> string" where
  "py_join sep [] = []"
| "py_join sep [x] = x"
| "py_join sep (x # y # ys) = x @ sep @ py_join sep (y # ys)"

section \<open>Regular expressions\<close>

text \<open>
  The patterns of \<open>utils/text_cleaner.py\<close> use character classes (\<open>Chr\<close>), negated
  classes and the dot (\<open>NChr\<close>, every character that is not in the class), \<open>\b\<close>,
  sequence, alternation and greedy repetition. A pattern is matched the way Python's backtracking
  matcher does it: \<open>rmatch r\<close> lists the places where a match of \<open>r\<close> from the given
  place can end, the place the matcher tries first at the head. A place is the
  character before it (needed by \<open>\b\<close>) and the text after it.
\<close>

datatype regex =
    Chr "char \<Rightarrow> bool"
  | NChr "char \<Rightarrow> bool"
  | Bnd
  | Eps
  | Seq regex regex
  | Alt regex regex
  | Star regex

type_synonym place = "char option \<times> string"

definition at_boundary :: "char option \<Rightarrow> string \<Rightarrow> bool" where
  "at_boundary prev rest =
     ((case prev of None \<Rightarrow> False | Some c \<Rightarrow> py_isword c) \<noteq>
      (case rest of [] \<Rightarrow> False | c # _ \<Rightarrow> py_isword c))"

text \<open>
  The body of a repetition never matches the empty text in these patterns; an
  iteration that consumes nothing is cut, which also makes the recursion end.
\<close>

function rmatch :: "regex \<Rightarrow> place \<Rightarrow> place list" where
  "rmatch (Chr p) (prev, rest) =
     (case rest of [] \<Rightarrow> [] | c # cs \<Rightarrow> if p c then [(Some c, cs)] else [])"
| "rmatch Bnd (prev, rest) = (if at_boundary prev rest then [(prev, rest)] else [])"
| "rmatch Eps (prev, rest) = [(prev, rest)]"
| "rmatch (Seq r1 r2) (prev, rest) = concat (map (rmatch r2) (rmatch r1 (prev, rest)))"
| "rmatch (Alt r1 r2) (prev, rest) = rmatch r1 (prev, rest) @ rmatch r2 (prev, rest)"
| "rmatch (Star r) (prev, rest) =
     concat (map (\<lambda>pl. if length (snd pl) < length rest then rmatch (Star r) pl else [])
                 (rmatch r (prev, rest)))
     @ [(prev, rest)]"
| "rmatch (NChr p) (prev, rest) =
     (case rest of [] \<Rightarrow> [] | c # cs \<Rightarrow> if p c then [] else [(Some c, cs)])"
  by pat_completeness auto
termination
  by (relation "(\<lambda>(r, pl). size r) <*mlex*> measure (\<lambda>(r, pl). length (snd pl))")
     (auto simp: wf_mlex mlex_less mlex_leq)

text \<open>Derived forms: \<open>r+\<close>, \<open>r?\<close>, \<open>r{n}\<close>, \<open>r{m,n}\<close>, \<open>r{m,}\<close>, a literal text.\<close>

definition Plus :: "regex \<Rightarrow> regex" where
  "Plus r = Seq r (Star r)"

definition Opt :: "regex \<Rightarrow> regex" where
  "Opt r = Alt r Eps"

fun Rep :: "nat \<Rightarrow> regex \<Rightarrow> regex" where
  "Rep 0 r = Eps"
| "Rep (Suc n) r = Seq r (Rep n r)"

fun UpTo :: "nat \<Rightarrow> regex \<Rightarrow> regex" where
  "UpTo 0 r = Eps"
| "UpTo (Suc n) r = Opt (Seq r (UpTo n r))"

definition Between :: "nat \<Rightarrow> nat \<Rightarrow> regex \<Rightarrow> regex" where
  "Between m n r = Seq (Rep m r) (UpTo (n - m) r)"

definition AtLeast :: "nat \<Rightarrow> regex \<Rightarrow> regex" where
  "AtLeast m r = Seq (Rep m r) (Star r)"

definition is_char :: "char \<Rightarrow> char \<Rightarrow> bool" where
  "is_char c x = (x = c)"

fun Lit :: "string \<Rightarrow> regex" where
  "Lit [] = Eps"
| "Lit (c # cs) = Seq (Chr (is_char c)) (Lit cs)"

fun Alts :: "regex list \<Rightarrow> regex" where
  "Alts [] = Alt Eps Eps"
| "Alts [r] = r"
| "Alts (r # rs) = Alt r (Alts rs)"

text \<open>
  \<open>flags=re.IGNORECASE\<close>: a character is in a class when it, its lower-case form or
  its upper-case form is in the class as written; a negated class takes what is not in
  the class so widened.
\<close>

definition swap_upper :: "char \<Rightarrow> char" where
  "swap_upper c = (let n = code c in
     if (97 \<le> n \<and> n \<le> 122) \<or> (224 \<le> n \<and> n \<le> 254 \<and> n \<noteq> 247) then char_of (n - 32) else c)"

definition nocase :: "(char \<Rightarrow> bool) \<Rightarrow> char \<Rightarrow> bool" where
  "nocase p c = (p c \<or> p (lower_char c) \<or> p (swap_upper c))"

fun ignorecase :: "regex \<Rightarrow> regex" where
  "ignorecase (Chr p) = Chr (nocase p)"
| "ignorecase (NChr p) = NChr (nocase p)"
| "ignorecase Bnd = Bnd"
| "ignorecase Eps = Eps"
| "ignorecase (Seq r1 r2) = Seq (ignorecase r1) (ignorecase r2)"
| "ignorecase (Alt r1 r2) = Alt (ignorecase r1) (ignorecase r2)"
| "ignorecase (Star r) = Star (ignorecase r)"

text \<open>The text between two places of the same scan.\<close>

definition consumed :: "string \<Rightarrow> place \<Rightarrow> string" where
  "consumed rest pl = take (length rest - length (snd pl)) rest"

text \<open>
  \<open>re.sub(pattern, repl, text)\<close>, \<open>repl\<close> being a function of the matched text. The
  scan goes from left to right; at each place the first match of the backtracking
  order is replaced and the scan goes on after it. After an empty match the next match
  at the same place must be non-empty (\<open>adv\<close>); where there is none the character is
  copied.
\<close>

function sub_from :: "regex \<Rightarrow> (string \<Rightarrow> string) \<Rightarrow> bool \<Rightarrow> char option \<Rightarrow> string \<Rightarrow> string" where
  "sub_from r f adv prev rest =
     (case filter (\<lambda>pl. \<not> adv \<or> length (snd pl) < length rest) (rmatch r (prev, rest)) of
        [] \<Rightarrow> (case rest of [] \<Rightarrow> [] | c # cs \<Rightarrow> c # sub_from r f False (Some c) cs)
      | pl # _ \<Rightarrow>
          if length (snd pl) < length rest
          then f (consumed rest pl) @ sub_from r f False (fst pl) (snd pl)
          else if adv then [] else f [] @ sub_from r f True prev rest)"
  by pat_completeness auto
termination
  by (relation "measure (\<lambda>(r, f, adv, prev, rest). 2 * length rest + (if adv then 0 else 1))")
     auto

declare sub_from.simps [simp del]

definition re_sub :: "regex \<Rightarrow> (string \<Rightarrow> string) \<Rightarrow> string \<Rightarrow> string" where
  "re_sub r f s = sub_from r f False None s"



fun Seqs :: "regex list \<Rightarrow> regex" where
  "Seqs [] = Eps"
| "Seqs [r] = r"
| "Seqs (r # rs) = Seq r (Seqs rs)"

section \<open>The patterns of the text cleaner\<close>

text \<open>The classes \<open>\d\<close>, \<open>\s\<close>, \<open>\w\<close>, and the bracketed classes of the patterns.\<close>

definition digit :: regex where
  "digit = Chr py_isdigit"

definition blank :: regex where
  "blank = Chr py_isspace"

definition word_char :: regex where
  "word_char = Chr py_isword"

definition in_range :: "char \<Rightarrow> char \<Rightarrow> char \<Rightarrow> bool" where
  "in_range lo hi c = (code lo \<le> code c \<and> code c \<le> code hi)"

definition one_of :: "string \<Rightarrow> char \<Rightarrow> bool" where
  "one_of cs c = (c \<in> set cs)"

text \<open>\<open>[\dkK]\<close>\<close>

definition rut_check_digit :: "char \<Rightarrow> bool" where
  "rut_check_digit c = (py_isdigit c \<or> one_of ''kK'' c)"

text \<open>\<open>[\w\.-]\<close>\<close>

definition email_char :: "char \<Rightarrow> bool" where
  "email_char c = (py_isword c \<or> one_of ''.-'' c)"

text \<open>\<open>[\d\s\-]\<close>\<close>

definition phone_char :: "char \<Rightarrow> bool" where
  "phone_char c = (py_isdigit c \<or> py_isspace c \<or> one_of ''-'' c)"

text \<open>
  The class negated in \<open>[^\n,]\<close>, and the newline, the one character that the dot
  does not take.
\<close>

definition address_end :: "char \<Rightarrow> bool" where
  "address_end c = one_of [CHR 0x0A, CHR '',''] c"

definition dot :: regex where
  "dot = NChr (is_char (CHR 0x0A))"

text \<open>
  The two letter classes of the name patterns: the ASCII letters and the six accented letters
  U+00C1, U+00C9, U+00CD, U+00D3, U+00DA, U+00D1 (upper case) and U+00E1, U+00E9, U+00ED,
  U+00F3, U+00FA, U+00F1 (lower case).
\<close>

definition upper_letter :: "char \<Rightarrow> bool" where
  "upper_letter c = (in_range CHR ''A'' CHR ''Z'' c \<or>
     one_of [CHR 0xC1, CHR 0xC9, CHR 0xCD, CHR 0xD3, CHR 0xDA, CHR 0xD1] c)"

definition lower_letter :: "char \<Rightarrow> bool" where
  "lower_letter c = (in_range CHR ''a'' CHR ''z'' c \<or>
     one_of [CHR 0xE1, CHR 0xE9, CHR 0xED, CHR 0xF3, CHR 0xFA, CHR 0xF1] c)"

definition RUT_REGEXES :: "regex list" where
  "RUT_REGEXES =
     [Seqs [Bnd, Between 1 3 digit, Lit ''.'', Rep 3 digit, Lit ''.'', Rep 3 digit, Lit ''-'',
            Chr rut_check_digit, Bnd],
      Seqs [Bnd, Between 1 2 digit, Lit ''.'', Rep 3 digit, Lit ''.'', Rep 3 digit, Lit ''-'',
            Chr rut_check_digit, Bnd],
      Seqs [Bnd, Between 1 3 digit, Lit ''-'', Rep 3 digit, Lit ''-'', Rep 3 digit, Lit ''-'',
            digit, Bnd]]"

definition EMAIL_REGEX :: regex where
  "EMAIL_REGEX =
     Seqs [Bnd, Plus (Chr email_char), Lit ''@'', Plus (Chr email_char), Lit ''.'',
           Plus word_char, Bnd]"

definition PHONE_REGEX :: regex where
  "PHONE_REGEX = Seqs [Bnd, Opt (Lit ''+''), digit, AtLeast 7 (Chr phone_char), digit, Bnd]"

definition ADDRESS_REGEX :: regex where
  "ADDRESS_REGEX =
     Seqs [Bnd,
           Alts [Lit ''calle'', Lit ''avenida'', Seq (Lit ''av'') (Opt (Lit ''.'')),
                 Lit ''pasaje'', Seq (Lit ''pje'') (Opt (Lit ''.''))],
           Plus blank, Plus (NChr address_end)]"

definition month_name :: regex where
  "month_name =
     Alts [Lit ''enero'', Lit ''febrero'', Lit ''marzo'', Lit ''abril'', Lit ''mayo'',
           Lit ''junio'', Lit ''julio'', Lit ''agosto'', Lit ''septiembre'', Lit ''octubre'',
           Lit ''noviembre'', Lit ''diciembre'']"

definition DATE_REGEXES :: "regex list" where
  "DATE_REGEXES =
     [Seqs [Bnd, Between 1 2 digit, Plus blank, Lit ''de'', Plus blank, month_name,
            Plus blank, Lit ''de'', Plus blank, Rep 4 digit, Bnd],
      Seqs [Bnd, Between 1 2 digit, Lit ''/'', Between 1 2 digit, Lit ''/'',
            Between 2 4 digit, Bnd]]"

definition NUMBER_REGEX :: regex where
  "NUMBER_REGEX = Seqs [Bnd, Plus digit, Star (Seq (Chr (one_of ''.,'')) (Plus digit)), Bnd]"

text \<open>A capitalised word, and a run of capitalised words separated by blanks.\<close>

definition cap_word :: regex where
  "cap_word = Seq (Chr upper_letter) (Plus (Chr lower_letter))"

definition cap_words :: regex where
  "cap_words = Seq cap_word (Star (Seq (Plus blank) cap_word))"

definition NAME_PATTERNS :: "regex list" where
  "NAME_PATTERNS =
     [Seqs [Bnd, Lit ''soy'', Plus blank, cap_words],
      Seqs [Bnd, Lit ''mi nombre es'', Plus blank, cap_words],
      Seqs [Bnd, Lit ''le atiende'', Plus blank, cap_word],
      Seqs [Bnd, Lit ''saluda'', Plus blank, cap_word],
      Seqs [Bnd, Lit ''le habla'', Plus blank, cap_word],
      Seqs [Bnd, Lit ''habla'', Plus blank, cap_word],
      Seqs [Bnd, Lit ''me llamo'', Plus blank, cap_words]]"

section \<open>Sanitising one line\<close>

text \<open>
  \<open>_replace_names\<close>: each cue pattern is searched without regard to case; inside a
  match, the capitalised words (case now regarded) become \<open><PERSON>\<close>.
\<close>

definition replace_name_span :: "string \<Rightarrow> string" where
  "replace_name_span m = re_sub cap_words (\<lambda>_. ''<PERSON>'') m"

definition replace_names :: "string \<Rightarrow> string" where
  "replace_names text = foldl (\<lambda>t patt. re_sub (ignorecase patt) replace_name_span t) text NAME_PATTERNS"

definition replace_dates_and_numbers :: "string \<Rightarrow> string" where
  "replace_dates_and_numbers text =
     (let text = foldl (\<lambda>t patt. re_sub (ignorecase patt) (\<lambda>_. ''<DATE>'') t) text DATE_REGEXES
      in re_sub NUMBER_REGEX (\<lambda>_. ''<NUM>'') text)"

text \<open>
  \<open>_sanitize_pii\<close>: the steps in the order of the source, each on the result of the
  step before.
\<close>

definition redact_ruts :: "string \<Rightarrow> string" where
  "redact_ruts text = foldl (\<lambda>t patt. re_sub (ignorecase patt) (\<lambda>_. ''<<RUT>>'') t) text RUT_REGEXES"

definition redact_emails :: "string \<Rightarrow> string" where
  "redact_emails text = re_sub EMAIL_REGEX (\<lambda>_. ''<<EMAIL>>'') text"

definition redact_phones :: "string \<Rightarrow> string" where
  "redact_phones text = re_sub PHONE_REGEX (\<lambda>_. ''<<TELEFONO>>'') text"

definition redact_addresses :: "string \<Rightarrow> string" where
  "redact_addresses text = re_sub (ignorecase ADDRESS_REGEX) (\<lambda>_. ''<<DIRECCION>>'') text"

definition sanitize_pii :: "string \<Rightarrow> string" where
  "sanitize_pii text =
     replace_dates_and_numbers
       (replace_names (redact_addresses (redact_phones (redact_emails (redact_ruts text)))))"

section \<open>Cleaning a transcript\<close>

text \<open>
  The speaker pattern \<open>\[\d{2}:\d{2}:\d{2}\]\s*(AGENTE|CLIENTE):\s*(.*)\<close>, matched at
  the start of the line without regard to case. The four parts are matched in turn, in
  the backtracking order, and the first complete match gives the two groups.
\<close>

definition timestamp :: regex where
  "timestamp = Seqs [Lit ''['', Rep 2 digit, Lit '':'', Rep 2 digit, Lit '':'', Rep 2 digit, Lit '']'']"

definition speaker_pre :: regex where
  "speaker_pre = ignorecase (Seq timestamp (Star blank))"

definition speaker_name :: regex where
  "speaker_name = ignorecase (Alt (Lit ''AGENTE'') (Lit ''CLIENTE''))"

definition speaker_mid :: regex where
  "speaker_mid = ignorecase (Seq (Lit '':'') (Star blank))"

definition speaker_rest :: regex where
  "speaker_rest = ignorecase (Star dot)"

definition speaker_matches :: "string \<Rightarrow> (string \<times> string) list" where
  "speaker_matches line =
     [(consumed (snd p1) p2, consumed (snd p3) p4).
        p1 \<leftarrow> rmatch speaker_pre (None, line), p2 \<leftarrow> rmatch speaker_name p1,
        p3 \<leftarrow> rmatch speaker_mid p2, p4 \<leftarrow> rmatch speaker_rest p3]"

definition match_speaker :: "string \<Rightarrow> (string \<times> string) option" where
  "match_speaker line = (case speaker_matches line of [] \<Rightarrow> None | g # _ \<Rightarrow> Some g)"

text \<open>
  One pass of the loop of \<open>clean_transcript\<close> over a piece of the text: \<open>None\<close> when
  the line is left out. (The source also sanitises the text after a bare timestamp into
  a variable that it then overwrites or does not read; that has no effect.)
\<close>

definition clean_line :: "string \<Rightarrow> string option" where
  "clean_line raw_line =
     (let line = py_strip raw_line
      in if line = [] then None
         else if sublist ''SISTEMA:'' line \<or> sublist ''[FIN DE LA LLAMADA]'' (py_upper line)
           then None
         else (case match_speaker line of
                 Some groups \<Rightarrow>
                   Some (py_upper (fst groups) @ '': '' @ py_strip (sanitize_pii (snd groups)))
               | None \<Rightarrow> Some (sanitize_pii line)))"

text \<open>
  \<open>clean_transcript\<close>: the line ends are made uniform, the text is split at the
  newlines, and \<open>plain_lines\<close> collects what the loop keeps.
\<close>

definition normalize_newlines :: "string \<Rightarrow> string" where
  "normalize_newlines raw_text =
     py_replace [CHR 0x0D] [CHR 0x0A] (py_replace [CHR 0x0D, CHR 0x0A] [CHR 0x0A] raw_text)"

definition plain_lines :: "string \<Rightarrow> string list" where
  "plain_lines raw_text =
     List.map_filter clean_line (py_split_on (CHR 0x0A) (normalize_newlines raw_text))"

definition clean_transcript :: "string \<Rightarrow> string" where
  "clean_transcript raw_text =
     (if raw_text = [] then [] else py_join [CHR 0x0A] (plain_lines raw_text))"

section \<open>Snippets\<close>

text \<open>
  \<open>get_snippet\<close> of \<open>utils/text_cleaner.py\<close>. \<open>snippet_pos\<close> is the variable \<open>pos\<close>
  after both searches: the full query first, then the query's words in order, the
  loop leaving at the first word found.
\<close>

fun first_word_pos :: "string \<Rightarrow> string list \<Rightarrow> int" where
  "first_word_pos text_lower [] = - 1"
| "first_word_pos text_lower (word # words) =
     (let pos = py_find text_lower word
      in if pos \<noteq> - 1 then pos else first_word_pos text_lower words)"

definition snippet_pos :: "string \<Rightarrow> string \<Rightarrow> int" where
  "snippet_pos text query =
     (let text_lower = py_lower text; query_lower = py_lower query;
          pos = py_find text_lower query_lower
      in if pos = - 1 then first_word_pos text_lower (py_split query_lower) else pos)"

definition get_snippet :: "string \<Rightarrow> string \<Rightarrow> int \<Rightarrow> string" where
  "get_snippet text query context_chars =
     (let pos = snippet_pos text query
      in if pos = - 1 then py_slice text 0 (context_chars * 2) @ ''...''
         else
           let start = max 0 (pos - context_chars);
               end = min (int (length text)) (pos + int (length query) + context_chars);
               snippet = py_slice text start end;
               snippet = (if start > 0 then ''...'' @ snippet else snippet);
               snippet = (if end < int (length text) then snippet @ ''...'' else snippet)
           in snippet)"

section \<open>Embeddings\<close>

text \<open>
  A vector is a list of numbers. An exception is its message. The embedding provider
  and everything else inside the \<open>try\<close> of one attempt (waiting for capacity, the call to
  the provider, logging the usage) are one function of the text and the number of the
  attempt: it gives the vector or the exception of that attempt.
\<close>

type_synonym vec = "real list"

type_synonym exn = string

definition is_rate_limit :: "exn \<Rightarrow> bool" where
  "is_rate_limit e = (let error_msg = py_lower e
     in sublist ''rate limit'' error_msg \<or> sublist ''429'' error_msg)"

text \<open>
  \<open>get_embedding\<close> of \<open>services/langchain_service.py\<close>: the loop over
  \<open>range(max_retries)\<close>. The result comes with the number of attempts made.
\<close>

definition no_embedding_message :: exn where
  "no_embedding_message =
     ''No se pudo generar embedding despu'' @ [CHR 0xE9] @ ''s de m'' @ [CHR 0xFA] @
     ''ltiples intentos''"

fun embedding_attempts :: "(nat \<Rightarrow> exn + 'a) \<Rightarrow> int \<Rightarrow> nat list \<Rightarrow> (exn + 'a) \<times> nat" where
  "embedding_attempts attempt_result max_retries [] = (Inl no_embedding_message, 0)"
| "embedding_attempts attempt_result max_retries (attempt # later) =
     (case attempt_result attempt of
        Inr embedding \<Rightarrow> (Inr embedding, 1)
      | Inl e \<Rightarrow>
          if is_rate_limit e \<and> int attempt < max_retries - 1
          then (let r = embedding_attempts attempt_result max_retries later in (fst r, Suc (snd r)))
          else (Inl e, 1))"

definition get_embedding ::
  "(string \<Rightarrow> nat \<Rightarrow> exn + vec option) \<Rightarrow> string \<Rightarrow> int \<Rightarrow> (exn + vec option) \<times> nat" where
  "get_embedding embed_query text max_retries =
     (let text = take 32000 text
      in embedding_attempts (embed_query text) max_retries [0..<nat max_retries])"

text \<open>
  \<open>get_embeddings_batch\<close>: the texts are cut to 32000 characters and taken in chunks of
  100. \<open>batch_attempts\<close> is the loop over the attempts for one chunk; it returns the
  list \<open>all_embeddings\<close> after the chunk, or the exception that leaves the function. On
  the last attempt the source first extends \<open>all_embeddings\<close> by one \<open>None\<close> for each
  text and then raises: the list is local, so the caller sees the exception only.
\<close>

fun batch_attempts ::
  "(nat \<Rightarrow> exn + vec list) \<Rightarrow> int \<Rightarrow> string list \<Rightarrow> vec option list \<Rightarrow> nat list \<Rightarrow>
     exn + vec option list" where
  "batch_attempts attempt_result max_retries chunk all_embeddings [] =
     Inr (all_embeddings @ replicate (length chunk) None)"
| "batch_attempts attempt_result max_retries chunk all_embeddings (attempt # later) =
     (case attempt_result attempt of
        Inr chunk_embeddings \<Rightarrow> Inr (all_embeddings @ map Some chunk_embeddings)
      | Inl e \<Rightarrow>
          if is_rate_limit e \<and> int attempt < max_retries - 1
          then batch_attempts attempt_result max_retries chunk all_embeddings later
          else Inl e)"

function batch_chunks ::
  "(string list \<Rightarrow> nat \<Rightarrow> exn + vec list) \<Rightarrow> int \<Rightarrow> string list \<Rightarrow> vec option list \<Rightarrow>
     exn + vec option list" where
  "batch_chunks embed_documents max_retries texts all_embeddings =
     (if texts = [] then Inr all_embeddings
      else
        let chunk = take 100 texts
        in case batch_attempts (embed_documents chunk) max_retries chunk all_embeddings
                  [0..<nat max_retries] of
             Inl e \<Rightarrow> Inl e
           | Inr all_embeddings \<Rightarrow>
               batch_chunks embed_documents max_retries (drop 100 texts) all_embeddings)"
  by pat_completeness auto
termination
  by (relation "measure (\<lambda>(embed_documents, max_retries, texts, all_embeddings). length texts)") auto

definition get_embeddings_batch ::
  "(string list \<Rightarrow> nat \<Rightarrow> exn + vec list) \<Rightarrow> string list \<Rightarrow> int \<Rightarrow> exn + vec option list" where
  "get_embeddings_batch embed_documents texts max_retries =
     batch_chunks embed_documents max_retries (map (take 32000) texts) []"

text \<open>The rows of the table \<open>transcripts\<close> (\<open>database.py\<close>), with the vector parsed.\<close>

record transcript =
  row_id :: int
  filename :: string
  content :: "string option"
  cleaned_content :: "string option"
  category :: "string option"
  embedding :: "vec option"



section \<open>The rate limiter\<close>

text \<open>
  \<open>RateLimiter\<close> of \<open>utils/rate_limiter.py\<close>. Times are numbers of seconds. The clock
  is read at three places of \<open>wait_for_capacity\<close>: on entry (\<open>t0\<close>), after the wait for
  the request limit (\<open>t1\<close>), and when the use is recorded (\<open>t2\<close>). The waits asked of
  \<open>asyncio.sleep\<close> are returned with the new state.
\<close>

record limiter =
  tokens_per_minute :: int
  requests_per_minute :: int
  tokens_per_second :: int
  token_history :: "(real \<times> int) list"
  request_history :: "real list"

record waits =
  request_wait :: "real option"
  minute_wait :: "real option"
  second_wait :: "real option"

datatype error = IndexError

definition prune_tokens :: "real \<Rightarrow> (real \<times> int) list \<Rightarrow> (real \<times> int) list" where
  "prune_tokens limit h = dropWhile (\<lambda>e. fst e < limit) h"

definition prune_requests :: "real \<Rightarrow> real list \<Rightarrow> real list" where
  "prune_requests limit h = dropWhile (\<lambda>ts. ts < limit) h"

text \<open>\<open>int(x)\<close> of a float cuts the fraction.\<close>

definition py_int :: "real \<Rightarrow> int" where
  "py_int x = (if 0 \<le> x then \<lfloor>x\<rfloor> else \<lceil>x\<rceil>)"

text \<open>
  The check of the requests per minute: the new \<open>current_time\<close>, the wait if any, and
  the request history. \<open>self.request_history[0]\<close> raises on an empty history.
\<close>

definition check_requests ::
  "limiter \<Rightarrow> real \<Rightarrow> real \<Rightarrow> real list \<Rightarrow> error + (real \<times> real option \<times> real list)" where
  "check_requests l t0 t1 rh =
     (if int (length rh) \<ge> requests_per_minute l
      then (case rh of
              [] \<Rightarrow> Inl IndexError
            | oldest_request # _ \<Rightarrow>
                let wait_time = 60 - (t0 - oldest_request) + 1 / 10
                in if wait_time > 0
                   then Inr (t1, Some wait_time, prune_requests (t1 - 60) rh)
                   else Inr (t0, None, rh))
      else Inr (t0, None, rh))"

definition check_minute_tokens :: "limiter \<Rightarrow> real \<Rightarrow> int \<Rightarrow> (real \<times> int) list \<Rightarrow> real option" where
  "check_minute_tokens l current_time estimated_tokens th =
     (let total_tokens_last_minute = sum_list (map snd th)
      in if total_tokens_last_minute + estimated_tokens > tokens_per_minute l
         then (case th of
                 [] \<Rightarrow> None
               | oldest # _ \<Rightarrow>
                   let wait_time = 60 - (current_time - fst oldest) + 1 / 10
                   in if wait_time > 0 then Some (min wait_time 5) else None)
         else None)"

definition check_second_tokens :: "limiter \<Rightarrow> real \<Rightarrow> int \<Rightarrow> (real \<times> int) list \<Rightarrow> real option" where
  "check_second_tokens l current_time estimated_tokens th =
     (let second_ago = current_time - 1;
          tokens_last_second = sum_list (map snd (filter (\<lambda>e. fst e \<ge> second_ago) th))
      in if tokens_last_second + estimated_tokens > tokens_per_second l
         then
           let wait_time = 11 / 10 - (current_time - of_int (py_int current_time))
           in if wait_time > 0 then Some wait_time else None
         else None)"

definition wait_for_capacity ::
  "real \<Rightarrow> real \<Rightarrow> real \<Rightarrow> int \<Rightarrow> limiter \<Rightarrow> error + (waits \<times> limiter)" where
  "wait_for_capacity t0 t1 t2 estimated_tokens l =
     (let minute_ago = t0 - 60;
          th = prune_tokens minute_ago (token_history l);
          rh = prune_requests minute_ago (request_history l)
      in case check_requests l t0 t1 rh of
           Inl e \<Rightarrow> Inl e
         | Inr r \<Rightarrow>
             let current_time = fst r;
                 rh = snd (snd r);
                 w = \<lparr>request_wait = fst (snd r),
                      minute_wait = check_minute_tokens l current_time estimated_tokens th,
                      second_wait = check_second_tokens l current_time estimated_tokens th\<rparr>
             in Inr (w, l\<lparr>token_history := th @ [(t2, estimated_tokens)],
                          request_history := rh @ [t2]\<rparr>))"

text \<open>\<open>get_rate_limiter\<close> builds the one limiter of the process with the default limits.\<close>

definition default_limiter :: limiter where
  "default_limiter =
     \<lparr>tokens_per_minute = 1000000, requests_per_minute = 3000,
      tokens_per_second = py_int ((1000000 * (8 / 10)) / 60),
      token_history = [], request_history = []\<rparr>"

section \<open>Search\<close>

text \<open>
  \<open>services/search_service.py\<close>. A result is the dictionary of the record (id, file
  name, category), a score and a snippet. Scores are compared, sorted and selected, never
  computed with, from the similarity on: the similarity itself (\<open>cosine_similarity\<close>,
  numpy arithmetic on floats) is a parameter, \<open>Inl\<close> standing for an exception, which
  the scan catches. \<open>files\<close> gives the raw text of the file of that name, if it can be
  read.
\<close>

record transcript_dict =
  dict_id :: int
  dict_filename :: string
  dict_category :: "string option"

type_synonym hit = "transcript_dict \<times> real \<times> string"

definition hit_key :: "hit \<Rightarrow> string" where
  "hit_key h = dict_filename (fst h)"

definition hit_score :: "hit \<Rightarrow> real" where
  "hit_score h = fst (snd h)"

definition dict_of :: "transcript \<Rightarrow> transcript_dict" where
  "dict_of t = \<lparr>dict_id = row_id t, dict_filename = filename t, dict_category = category t\<rparr>"

text \<open>\<open>results.sort(key=..., reverse=True)\<close>: by score, highest first, equal scores in their old order.\<close>

definition sort_by_score :: "hit list \<Rightarrow> hit list" where
  "sort_by_score hits = sort_key (\<lambda>h. - hit_score h) hits"

definition get_transcript_cleaned :: "(string \<Rightarrow> string option) \<Rightarrow> string \<Rightarrow> string option" where
  "get_transcript_cleaned files name = map_option clean_transcript (files name)"

text \<open>\<open>cleaned_content\<close> of the record or, when that is empty, of its file, or the empty text.\<close>

definition content_for_search :: "(string \<Rightarrow> string option) \<Rightarrow> transcript \<Rightarrow> string" where
  "content_for_search files t =
     (case cleaned_content t of
        Some c \<Rightarrow> if c \<noteq> [] then c
                  else (case get_transcript_cleaned files (filename t) of None \<Rightarrow> [] | Some c' \<Rightarrow> c')
      | None \<Rightarrow> (case get_transcript_cleaned files (filename t) of None \<Rightarrow> [] | Some c' \<Rightarrow> c'))"

text \<open>The loop of \<open>semantic_search\<close> over the records that have a vector.\<close>

fun semantic_scan ::
  "(vec \<Rightarrow> vec \<Rightarrow> exn + real) \<Rightarrow> (string \<Rightarrow> string option) \<Rightarrow> string \<Rightarrow> vec \<Rightarrow> real \<Rightarrow>
     transcript list \<Rightarrow> hit list" where
  "semantic_scan cosine files query query_vector threshold [] = []"
| "semantic_scan cosine files query query_vector threshold (db_transcript # later) =
     (let rest = semantic_scan cosine files query query_vector threshold later
      in case embedding db_transcript of
           None \<Rightarrow> rest
         | Some transcript_emb_list \<Rightarrow>
             if length transcript_emb_list \<noteq> length query_vector then rest
             else (case cosine query_vector transcript_emb_list of
                     Inl e \<Rightarrow> rest
                   | Inr similarity \<Rightarrow>
                       if similarity \<ge> threshold
                       then (dict_of db_transcript, similarity,
                             get_snippet (content_for_search files db_transcript) query 100) # rest
                       else rest))"

definition semantic_search ::
  "(string \<Rightarrow> nat \<Rightarrow> exn + vec option) \<Rightarrow> (vec \<Rightarrow> vec \<Rightarrow> exn + real) \<Rightarrow>
     (string \<Rightarrow> string option) \<Rightarrow> transcript list \<Rightarrow> string \<Rightarrow> int \<Rightarrow> real \<Rightarrow> hit list" where
  "semantic_search embed_query cosine files db query limit threshold =
     (if query = [] \<or> py_strip query = [] then []
      else (case fst (get_embedding embed_query query 3) of
              Inl e \<Rightarrow> []
            | Inr None \<Rightarrow> []
            | Inr (Some query_vector) \<Rightarrow>
                let db_transcripts_with_embeddings = filter (\<lambda>t. embedding t \<noteq> None) db
                in if db_transcripts_with_embeddings = [] then []
                   else py_slice (sort_by_score
                          (semantic_scan cosine files query query_vector threshold
                             db_transcripts_with_embeddings)) 0 limit))"

text \<open>\<open>keyword_search_enhanced\<close>: the share of the query's words found in the text.\<close>

fun keyword_scan :: "(string \<Rightarrow> string option) \<Rightarrow> string \<Rightarrow> string list \<Rightarrow> transcript list \<Rightarrow> hit list" where
  "keyword_scan files query query_words [] = []"
| "keyword_scan files query query_words (t # later) =
     (let rest = keyword_scan files query query_words later;
          cleaned = content_for_search files t
      in if cleaned = [] then rest
         else
           let content_lower = py_lower cleaned;
               matches = length (filter (\<lambda>word. sublist word content_lower) query_words)
           in if matches > 0
              then (dict_of t, real matches / real (length query_words),
                    get_snippet cleaned query 100) # rest
              else rest)"

definition keyword_search_enhanced ::
  "(string \<Rightarrow> string option) \<Rightarrow> transcript list \<Rightarrow> string \<Rightarrow> int \<Rightarrow> hit list" where
  "keyword_search_enhanced files db query limit =
     (let query_lower = py_strip (py_lower query);
          query_words = map py_strip (filter (\<lambda>w. py_strip w \<noteq> []) (py_split query_lower))
      in if query_words = [] then []
         else py_slice (sort_by_score
                (keyword_scan files query query_words (filter (\<lambda>t. embedding t \<noteq> None) db))) 0 limit)"

text \<open>
  The fusion of \<open>hybrid_search\<close>. \<open>combined\<close> is a dictionary from file names to
  results with the name of the phase: a list of pairs in the order of first insertion,
  as a Python \<open>dict\<close> keeps it.
\<close>

type_synonym combined = "(string \<times> (transcript_dict \<times> real \<times> string \<times> string)) list"

fun add_semantic :: "combined \<Rightarrow> hit list \<Rightarrow> combined" where
  "add_semantic combined [] = combined"
| "add_semantic combined (h # later) =
     add_semantic
       (AList.update (hit_key h) (fst h, hit_score h, snd (snd h), ''semantic'') combined) later"

fun add_keyword :: "combined \<Rightarrow> hit list \<Rightarrow> combined" where
  "add_keyword combined [] = combined"
| "add_keyword combined (h # later) =
     add_keyword
       (if map_of combined (hit_key h) = None
        then AList.update (hit_key h)
               (fst h, max (85 / 100) (hit_score h), snd (snd h), ''keyword'') combined
        else combined) later"

definition combine :: "hit list \<Rightarrow> hit list \<Rightarrow> combined" where
  "combine semantic_results keyword_results = add_keyword (add_semantic [] semantic_results) keyword_results"

definition fused_score :: "hit list \<Rightarrow> hit list \<Rightarrow> string \<Rightarrow> real option" where
  "fused_score semantic_results keyword_results key =
     map_option (\<lambda>v. fst (snd v)) (map_of (combine semantic_results keyword_results) key)"

definition fuse :: "hit list \<Rightarrow> hit list \<Rightarrow> int \<Rightarrow> hit list" where
  "fuse semantic_results keyword_results limit =
     (let results = map (\<lambda>kv. (fst (snd kv), fst (snd (snd kv)), fst (snd (snd (snd kv)))))
                        (combine semantic_results keyword_results)
      in py_slice (sort_by_score results) 0 limit)"

definition hybrid_search ::
  "(string \<Rightarrow> nat \<Rightarrow> exn + vec option) \<Rightarrow> (vec \<Rightarrow> vec \<Rightarrow> exn + real) \<Rightarrow>
     (string \<Rightarrow> string option) \<Rightarrow> transcript list \<Rightarrow> string \<Rightarrow> int \<Rightarrow> real \<Rightarrow> hit list" where
  "hybrid_search embed_query cosine files db query limit threshold =
     fuse (semantic_search embed_query cosine files db query (limit * 2) threshold)
          (keyword_search_enhanced files db query limit) limit"

section \<open>Notions used in the statements and proofs\<close>

text \<open>A record whose stored vector has not the length of the query vector.\<close>

definition mismatched :: "vec \<Rightarrow> transcript \<Rightarrow> bool" where
  "mismatched query_vector t =
     (case embedding t of None \<Rightarrow> False | Some e \<Rightarrow> length e \<noteq> length query_vector)"


text \<open>Every entry of the dictionary stands under the file name of its record.\<close>

definition keyed :: "combined \<Rightarrow> bool" where
  "keyed c = (\<forall>kv\<in>set c. dict_filename (fst (snd kv)) = fst kv)"










section \<open>Properties of the snippet extractor\<close>

lemma find_index_of_empty: "find_index_of [] s = Some 0"
  by (cases s) simp_all

lemma py_find_empty: "py_find s [] = 0"
  by (simp add: py_find_def find_index_of_empty)

lemma snippet_pos_empty_query: "snippet_pos text [] = 0"
  by (simp add: snippet_pos_def py_lower_def py_find_empty)

lemma py_slice_prefix: "0 \<le> k \<Longrightarrow> py_slice s 0 k = take (nat k) s"
  by (auto simp: py_slice_def slice_bound_def Let_def)

text \<open>
  Claim C5. For the text of ten A's, a blank, \<open>needle\<close>, a blank and ten B's, the query
  \<open>needle\<close> and five characters of context, the claim expects five A's and five B's
  around the match. The window is five characters on each side of the match, and the
  blank next to the match is one of them: four A's and four B's remain.
\<close>

theorem snippet_needle_counterexample:
  "get_snippet ''AAAAAAAAAA needle BBBBBBBBBB'' ''needle'' 5 \<noteq> ''...AAAAA needle BBBBB...''"
  by code_simp

text \<open>
  Claim C5, amended: on that input \<open>get_snippet\<close> returns the window of five characters
  on each side of the match, the blanks counted, between the two ellipses.
\<close>

theorem snippet_needle:
  "get_snippet ''AAAAAAAAAA needle BBBBBBBBBB'' ''needle'' 5 = ''...AAAA needle BBBB...''"
  by code_simp

text \<open>
  Claim C10. With an empty query and a negative \<open>context_chars\<close> the window starts
  after the beginning of the text and the result is not the prefix
  \<open>text[0:context_chars]\<close>: for \<open>abcdef\<close> and \<open>-1\<close> it is \<open>...bcde...\<close>.
\<close>

theorem snippet_empty_query_counterexample:
  "get_snippet ''abcdef'' [] (- 1) = ''...bcde...'' \<and>
   get_snippet ''abcdef'' [] (- 1) \<noteq>
     py_slice ''abcdef'' 0 (- 1) @ (if - 1 < int (length ''abcdef'') then ''...'' else [])"
  by code_simp

text \<open>
  Claim C10, amended: for every text and every \<open>context_chars\<close> that is not negative,
  \<open>get_snippet\<close> with the empty query finds the query at position 0 (so the fallback
  for a query that is not found is not taken) and returns the prefix
  \<open>text[0:context_chars]\<close>, followed by \<open>...\<close> exactly when \<open>context_chars\<close> is less
  than the length of the text.
\<close>

theorem snippet_empty_query:
  "0 \<le> context_chars \<Longrightarrow>
     snippet_pos text [] = 0 \<and>
     get_snippet text [] context_chars =
       py_slice text 0 context_chars @ (if context_chars < int (length text) then ''...'' else [])"
  by (auto simp: get_snippet_def snippet_pos_empty_query py_slice_prefix Let_def min_def max_def)

theorem snippet_empty_query_witness:
  "(0::int) \<le> 3 \<and> snippet_pos ''abcdef'' [] = 0 \<and> get_snippet ''abcdef'' [] 3 = ''abc...''"
  using snippet_empty_query [of 3 "''abcdef''"]
  by (simp add: py_slice_def slice_bound_def)

section \<open>Properties of the embedding services\<close>

lemma upt3: "[0..<3] = [0, 1, 2::nat]"
  by code_simp

lemma is_rate_limit_429: "is_rate_limit ''Error code: 429''"
  by code_simp


lemma batch_attempts_all_fail:
  "\<forall>attempt. attempt_result attempt = Inl e \<Longrightarrow> as \<noteq> [] \<Longrightarrow> \<forall>a\<in>set as. int a < max_retries \<Longrightarrow>
   int (last as) = max_retries - 1 \<Longrightarrow>
   batch_attempts attempt_result max_retries chunk acc as = Inl e"
  by (induction as) (auto split: if_splits)

text \<open>
  Whenever every attempt on the first chunk fails, with a rate-limit error or another
  one, the whole call raises, whatever the later chunks would give.
\<close>

lemma batch_raises_when_first_chunk_fails:
  assumes "texts \<noteq> []" and "0 < max_retries"
    and "\<forall>attempt. embed_documents (take 100 (map (take 32000) texts)) attempt = Inl e"
  shows "get_embeddings_batch embed_documents texts max_retries = Inl e"
proof -
  have n: "[0..<nat max_retries] \<noteq> []" and l: "int (last [0..<nat max_retries]) = max_retries - 1"
    using assms(2) by (simp_all add: last_upt)
  have b: "\<forall>a\<in>set [0..<nat max_retries]. int a < max_retries"
    by auto
  have "batch_attempts (embed_documents (take 100 (map (take 32000) texts))) max_retries
          (take 100 (map (take 32000) texts)) [] [0..<nat max_retries] = Inl e"
    by (rule batch_attempts_all_fail [OF assms(3) n b l])
  then show ?thesis
    using assms(1) by (simp add: get_embeddings_batch_def Let_def)
qed

text \<open>
  Claim C3. A chunk that exhausts its retries should give a \<open>None\<close> for each of its
  texts, and the batch should go on. The source says so in the comment of the branch and
  has the placeholders once more after the loop, but the branch ends in \<open>raise\<close>: for one
  text and a provider that answers every attempt with a rate-limit error, the call with
  three retries raises that error instead of returning \<open>[None]\<close>.
\<close>

theorem batch_exhausted_chunk_raises:
  "get_embeddings_batch (\<lambda>chunk attempt. Inl ''Error code: 429'') [''hola''] 3 =
     Inl ''Error code: 429''"
  by (simp add: get_embeddings_batch_def upt3 is_rate_limit_429)




section \<open>Properties of the rate limiter\<close>

lemma prune_requests_drop: "\<exists>k. prune_requests limit h = drop k h"
  unfolding prune_requests_def dropWhile_eq_drop by blast

lemma check_requests_ok:
  "0 < requests_per_minute l \<Longrightarrow>
   check_requests l t0 t1 rh = Inr (t0, None, rh) \<or>
   (\<exists>w. check_requests l t0 t1 rh = Inr (t1, Some w, prune_requests (t1 - 60) rh))"
  by (cases rh) (simp_all add: check_requests_def Let_def)

lemma check_minute_tokens_capped:
  "check_minute_tokens l ct est th = Some d \<Longrightarrow> 0 < d \<and> d \<le> 5"
  by (auto simp: check_minute_tokens_def Let_def split: if_splits list.splits)

lemma wait_for_capacity_result:
  "check_requests l t0 t1 (prune_requests (t0 - 60) (request_history l)) = Inr (ct, rw, rh) \<Longrightarrow>
   wait_for_capacity t0 t1 t2 est l =
     Inr (\<lparr>request_wait = rw,
           minute_wait = check_minute_tokens l ct est (prune_tokens (t0 - 60) (token_history l)),
           second_wait = check_second_tokens l ct est (prune_tokens (t0 - 60) (token_history l))\<rparr>,
          l\<lparr>token_history := prune_tokens (t0 - 60) (token_history l) @ [(t2, est)],
            request_history := rh @ [t2]\<rparr>)"
  by (simp add: wait_for_capacity_def Let_def)

text \<open>
  Claim C8. With a limit of zero requests per minute and an empty history,
  \<open>len(self.request_history) >= self.requests_per_minute\<close> holds and
  \<open>self.request_history[0]\<close> raises \<open>IndexError\<close>: the reservation fails.
\<close>

theorem wait_for_capacity_counterexample:
  "wait_for_capacity 0 0 0 100 (default_limiter\<lparr>requests_per_minute := 0\<rparr>) = Inl IndexError"
  by (simp add: wait_for_capacity_def default_limiter_def prune_requests_def prune_tokens_def
      check_requests_def)

text \<open>
  Claim C8, amended: for every number of estimated tokens, every reading of the clock
  and every limiter whose limit of requests per minute is at least one (the limiter of
  the process has 3000), \<open>wait_for_capacity\<close> does not fail; the wait for the tokens per
  minute, when there is one, is at most five seconds; and on return the token history is
  the pruned history followed by the one new entry (time, estimated tokens), and the
  request history is a pruned history followed by the one new time.
\<close>

theorem wait_for_capacity_admits:
  "0 < requests_per_minute l \<Longrightarrow>
   \<exists>w l' k.
     wait_for_capacity t0 t1 t2 estimated_tokens l = Inr (w, l') \<and>
     token_history l' = prune_tokens (t0 - 60) (token_history l) @ [(t2, estimated_tokens)] \<and>
     request_history l' = drop k (request_history l) @ [t2] \<and>
     (minute_wait w = None \<or> (\<exists>d. minute_wait w = Some d \<and> 0 < d \<and> d \<le> 5))"
proof -
  assume pos: "0 < requests_per_minute l"
  define rh0 where "rh0 = prune_requests (t0 - 60) (request_history l)"
  define th where "th = prune_tokens (t0 - 60) (token_history l)"
  obtain k0 where k0: "rh0 = drop k0 (request_history l)"
    unfolding rh0_def using prune_requests_drop by blast
  obtain ct rw rh where cr: "check_requests l t0 t1 rh0 = Inr (ct, rw, rh)"
    and rh: "rh = rh0 \<or> rh = prune_requests (t1 - 60) rh0"
    using check_requests_ok [OF pos, of t0 t1 rh0] by blast
  obtain k where k: "rh = drop k (request_history l)"
  proof (cases "rh = rh0")
    case True
    then show ?thesis using k0 that by blast
  next
    case False
    then have "rh = prune_requests (t1 - 60) rh0" using rh by blast
    then obtain k1 where "rh = drop k1 rh0" using prune_requests_drop by metis
    then have "rh = drop (k1 + k0) (request_history l)" using k0 by simp
    then show ?thesis using that by blast
  qed
  let ?mw = "check_minute_tokens l ct estimated_tokens th"
  have cap: "?mw = None \<or> (\<exists>d. ?mw = Some d \<and> 0 < d \<and> d \<le> 5)"
    using check_minute_tokens_capped [of l ct estimated_tokens th] by (cases ?mw) simp_all
  have res: "wait_for_capacity t0 t1 t2 estimated_tokens l =
     Inr (\<lparr>request_wait = rw, minute_wait = ?mw,
           second_wait = check_second_tokens l ct estimated_tokens th\<rparr>,
          l\<lparr>token_history := th @ [(t2, estimated_tokens)], request_history := rh @ [t2]\<rparr>)"
    using wait_for_capacity_result [of l t0 t1 ct rw rh] cr unfolding rh0_def th_def by simp
  show ?thesis
    apply (rule exI [of _ "\<lparr>request_wait = rw, minute_wait = ?mw,
           second_wait = check_second_tokens l ct estimated_tokens th\<rparr>"])
    apply (rule exI [of _ "l\<lparr>token_history := th @ [(t2, estimated_tokens)], request_history := rh @ [t2]\<rparr>"])
    apply (rule exI [of _ k])
    using res cap k th_def by simp
qed

theorem wait_for_capacity_admits_witness:
  "0 < requests_per_minute
         (default_limiter\<lparr>token_history := [(50, 999900)], request_history := [50]\<rparr>) \<and>
   (\<exists>w l' k.
     wait_for_capacity 100 100 101 250
         (default_limiter\<lparr>token_history := [(50, 999900)], request_history := [50]\<rparr>) =
       Inr (w, l') \<and>
     token_history l' = [(50, 999900), (101, 250)] \<and>
     request_history l' = drop k [50] @ [101] \<and>
     (minute_wait w = None \<or> (\<exists>d. minute_wait w = Some d \<and> 0 < d \<and> d \<le> 5)))"
proof -
  have pos: "0 < requests_per_minute
         (default_limiter\<lparr>token_history := [(50, 999900)], request_history := [50]\<rparr>)"
    by (simp add: default_limiter_def)
  show ?thesis
    using pos wait_for_capacity_admits [OF pos, of 100 100 101 250]
    by (simp add: prune_tokens_def)
qed

text \<open>In that state the wait for the tokens per minute would be 10.1 seconds and is cut to 5.\<close>

lemma minute_wait_is_capped:
  "check_minute_tokens default_limiter 100 250 [(50, 999900)] = Some 5"
  by (simp add: check_minute_tokens_def default_limiter_def)

section \<open>Properties of the search\<close>

lemma semantic_scan_ignores_mismatched:
  "(\<forall>e. length e = length query_vector \<longrightarrow> cosine query_vector e = cosine' query_vector e) \<Longrightarrow>
   semantic_scan cosine files query query_vector threshold db =
   semantic_scan cosine' files query query_vector threshold
     (filter (\<lambda>t. \<not> mismatched query_vector t) db)"
  by (induction db) (auto simp: mismatched_def Let_def split: option.splits sum.splits)

text \<open>
  Claim C7. In the scan of \<open>semantic_search\<close> a record whose vector has not the length
  of the query vector contributes nothing: the scan gives what it gives on the records
  without the mismatched ones, and the similarity is never asked for a mismatched
  vector (its values there do not matter). The scan always returns its list: no
  exception comes from a mismatched record.
\<close>

theorem semantic_scan_skips_mismatched:
  "(\<forall>e. length e = length query_vector \<longrightarrow> cosine query_vector e = cosine' query_vector e) \<Longrightarrow>
   semantic_scan cosine files query query_vector threshold db =
   semantic_scan cosine' files query query_vector threshold
     (filter (\<lambda>t. \<not> mismatched query_vector t) db)"
  by (rule semantic_scan_ignores_mismatched)

theorem semantic_scan_skips_mismatched_witness:
  "semantic_scan (\<lambda>a b. Inr 1) (\<lambda>name. None) ''hola'' [1, 0] (1 / 2)
     [\<lparr>row_id = 1, filename = ''a.txt'', content = None, cleaned_content = Some ''hola mundo'',
        category = None, embedding = Some [1, 0, 0]\<rparr>,
      \<lparr>row_id = 2, filename = ''b.txt'', content = None, cleaned_content = Some ''hola mundo'',
        category = None, embedding = Some [0, 1]\<rparr>] =
   [(\<lparr>dict_id = 2, dict_filename = ''b.txt'', dict_category = None\<rparr>, 1, ''hola mundo'')]"
proof -
  have snippet: "get_snippet ''hola mundo'' ''hola'' 100 = ''hola mundo''"
    by code_simp
  have "semantic_scan (\<lambda>a b. if length a = length b then Inr 1 else Inl ''shapes not aligned'')
     (\<lambda>name. None) ''hola'' [1, 0] (1 / 2)
     [\<lparr>row_id = 2, filename = ''b.txt'', content = None, cleaned_content = Some ''hola mundo'',
        category = None, embedding = Some [0, 1]\<rparr>] =
     [(\<lparr>dict_id = 2, dict_filename = ''b.txt'', dict_category = None\<rparr>, 1, ''hola mundo'')]"
    by (simp add: content_for_search_def dict_of_def snippet)
  then show ?thesis
    using semantic_scan_skips_mismatched
          [of "[1, 0]" "\<lambda>a b. Inr 1"
              "\<lambda>a b. if length a = length b then Inr 1 else Inl ''shapes not aligned''"
              "\<lambda>name. None" "''hola''" "1 / 2"
              "[\<lparr>row_id = 1, filename = ''a.txt'', content = None, cleaned_content = Some ''hola mundo'',
                  category = None, embedding = Some [1, 0, 0]\<rparr>,
                \<lparr>row_id = 2, filename = ''b.txt'', content = None, cleaned_content = Some ''hola mundo'',
                  category = None, embedding = Some [0, 1]\<rparr>]"]
    by (simp add: mismatched_def)
qed

text \<open>
  The same for \<open>semantic_search\<close> as a whole, once the query has its vector: the
  mismatched records can be taken out of the table without changing the result.
\<close>

lemma py_slice_Nil: "py_slice [] a b = []"
  by (simp add: py_slice_def)

lemma semantic_search_skips_mismatched:
  assumes "fst (get_embedding embed_query query 3) = Inr (Some qv)"
  shows "semantic_search embed_query cosine files db query limit thr =
         semantic_search embed_query cosine files (filter (\<lambda>t. \<not> mismatched qv t) db) query limit thr"
proof -
  let ?with = "filter (\<lambda>t. embedding t \<noteq> None) db"
  let ?scan = "semantic_scan cosine files query qv thr"
  have comm: "filter (\<lambda>t. embedding t \<noteq> None) (filter (\<lambda>t. \<not> mismatched qv t) db) =
              filter (\<lambda>t. \<not> mismatched qv t) ?with"
    by (induction db) auto
  have scan: "?scan ?with = ?scan (filter (\<lambda>t. \<not> mismatched qv t) ?with)"
    by (rule semantic_scan_ignores_mismatched) simp
  show ?thesis
  proof (cases "filter (\<lambda>t. \<not> mismatched qv t) ?with = []")
    case True
    then have "?scan ?with = []" using scan by simp
    then show ?thesis
      using assms True comm by (simp add: semantic_search_def Let_def sort_by_score_def py_slice_Nil)
  next
    case False
    then have "?with \<noteq> []" by (metis filter.simps(1))
    then show ?thesis
      using assms False comm scan by (simp add: semantic_search_def Let_def)
  qed
qed

lemma find_distinct:
  "distinct (map f xs) \<Longrightarrow> x \<in> set xs \<Longrightarrow> find (\<lambda>y. f y = f x) xs = Some x"
  by (induction xs) (auto simp: image_iff)

lemma find_none: "f x \<notin> f ` set xs \<Longrightarrow> find (\<lambda>y. f y = f x) xs = None"
  by (induction xs) auto

lemma find_app:
  "find P (xs @ ys) = (case find P xs of None \<Rightarrow> find P ys | Some x \<Rightarrow> Some x)"
  by (induction xs) auto

lemma map_of_add_semantic:
  "map_of (add_semantic c hs) key =
     (case find (\<lambda>h. hit_key h = key) (rev hs) of
        Some h \<Rightarrow> Some (fst h, hit_score h, snd (snd h), ''semantic'')
      | None \<Rightarrow> map_of c key)"
  by (induction hs arbitrary: c) (auto simp: update_conv' find_app split: option.splits)

lemma map_of_add_keyword:
  "map_of (add_keyword c hs) key =
     (case map_of c key of
        Some v \<Rightarrow> Some v
      | None \<Rightarrow>
          (case find (\<lambda>h. hit_key h = key) hs of
             Some h \<Rightarrow> Some (fst h, max (85 / 100) (hit_score h), snd (snd h), ''keyword'')
           | None \<Rightarrow> None))"
  by (induction hs arbitrary: c) (auto simp: update_conv' split: option.splits)

lemma fused_score_semantic:
  "distinct (map hit_key sem) \<Longrightarrow> h \<in> set sem \<Longrightarrow> fused_score sem kw (hit_key h) = Some (hit_score h)"
  using find_distinct [of hit_key "rev sem" h]
  by (simp add: fused_score_def combine_def map_of_add_keyword map_of_add_semantic rev_map [symmetric])

lemma fused_score_keyword:
  "distinct (map hit_key kw) \<Longrightarrow> h \<in> set kw \<Longrightarrow> hit_key h \<notin> hit_key ` set sem \<Longrightarrow>
   fused_score sem kw (hit_key h) = Some (max (85 / 100) (hit_score h))"
  using find_distinct [of hit_key kw h] find_none [of hit_key h "rev sem"]
  by (simp add: fused_score_def combine_def map_of_add_keyword map_of_add_semantic)

lemma combine_keys_distinct_aux1: "distinct (map fst c) \<Longrightarrow> distinct (map fst (add_semantic c hs))"
  by (induction hs arbitrary: c) (auto simp: distinct_update)

lemma combine_keys_distinct_aux2: "distinct (map fst c) \<Longrightarrow> distinct (map fst (add_keyword c hs))"
  by (induction hs arbitrary: c) (auto simp: distinct_update)

lemma combine_keys_distinct: "distinct (map fst (combine sem kw))"
  by (simp add: combine_def combine_keys_distinct_aux1 combine_keys_distinct_aux2)

lemma set_update_sub: "set (AList.update k v al) \<subseteq> insert (k, v) (set al)"
  by (induction al) auto
lemma keyed_update: "keyed c \<Longrightarrow> dict_filename (fst v) = k \<Longrightarrow> keyed (AList.update k v c)"
  using set_update_sub [of k v c] by (auto simp: keyed_def)

lemma keyed_add_semantic: "keyed c \<Longrightarrow> keyed (add_semantic c hs)"
  by (induction hs arbitrary: c) (simp_all add: keyed_update hit_key_def)

lemma keyed_add_keyword: "keyed c \<Longrightarrow> keyed (add_keyword c hs)"
  by (induction hs arbitrary: c) (simp_all add: keyed_update hit_key_def)

lemma keyed_combine: "keyed (combine sem kw)"
proof -
  have "keyed []" by (simp add: keyed_def)
  then show ?thesis
    unfolding combine_def by (intro keyed_add_keyword keyed_add_semantic)
qed

lemma set_py_slice: "set (py_slice xs a b) \<subseteq> set xs"
  by (auto simp: py_slice_def Let_def dest!: in_set_takeD in_set_dropD)

lemma fuse_carries_fused_score:
  "h \<in> set (fuse sem kw limit) \<Longrightarrow> fused_score sem kw (hit_key h) = Some (hit_score h)"
proof -
  assume "h \<in> set (fuse sem kw limit)"
  then have "h \<in> set (map (\<lambda>kv. (fst (snd kv), fst (snd (snd kv)), fst (snd (snd (snd kv)))))
                        (combine sem kw))"
    using set_py_slice by (fastforce simp: fuse_def sort_by_score_def Let_def)
  then obtain kv where kv: "kv \<in> set (combine sem kw)"
    and h: "h = (fst (snd kv), fst (snd (snd kv)), fst (snd (snd (snd kv))))"
    by auto
  have key: "hit_key h = fst kv"
    using keyed_combine [of sem kw] kv h by (simp add: keyed_def hit_key_def)
  have "map_of (combine sem kw) (fst kv) = Some (snd kv)"
    using kv combine_keys_distinct [of sem kw] by simp
  then have "fused_score sem kw (hit_key h) = Some (fst (snd (snd kv)))"
    unfolding fused_score_def key by simp
  moreover have "hit_score h = fst (snd (snd kv))"
    by (simp add: h hit_score_def)
  ultimately show ?thesis by simp
qed

text \<open>
  Claim C2. The fusion of \<open>hybrid_search\<close>, for any results of the two phases in which
  no file name occurs twice (file names are unique in the table): a record of the
  semantic phase keeps its semantic score, also when the keyword phase has it too; a
  record of the keyword phase alone gets the larger of 0.85 and its keyword score, so
  0.85 for the keyword score 0.3; and every result returned carries the fused score of
  its record.
\<close>

theorem fusion_scores:
  "distinct (map hit_key sem) \<Longrightarrow> distinct (map hit_key kw) \<Longrightarrow>
   (\<forall>h\<in>set sem. fused_score sem kw (hit_key h) = Some (hit_score h)) \<and>
   (\<forall>h\<in>set kw. hit_key h \<notin> hit_key ` set sem \<longrightarrow>
      fused_score sem kw (hit_key h) = Some (max (85 / 100) (hit_score h))) \<and>
   (\<forall>h\<in>set kw. hit_key h \<notin> hit_key ` set sem \<and> hit_score h = 3 / 10 \<longrightarrow>
      fused_score sem kw (hit_key h) = Some (85 / 100)) \<and>
   (\<forall>h\<in>set (fuse sem kw limit). fused_score sem kw (hit_key h) = Some (hit_score h))"
  using fused_score_semantic [of sem _ kw] fused_score_keyword [of kw _ sem]
        fuse_carries_fused_score [of _ sem kw limit]
  by auto

theorem fusion_scores_witness:
  "distinct (map hit_key [(\<lparr>dict_id = 1, dict_filename = ''a.txt'', dict_category = None\<rparr>, 9 / 10, ''s1'')]) \<and>
   distinct (map hit_key [(\<lparr>dict_id = 1, dict_filename = ''a.txt'', dict_category = None\<rparr>, 1, ''k1''),
                          (\<lparr>dict_id = 2, dict_filename = ''b.txt'', dict_category = None\<rparr>, 3 / 10, ''k2'')]) \<and>
   fused_score [(\<lparr>dict_id = 1, dict_filename = ''a.txt'', dict_category = None\<rparr>, 9 / 10, ''s1'')]
     [(\<lparr>dict_id = 1, dict_filename = ''a.txt'', dict_category = None\<rparr>, 1, ''k1''),
      (\<lparr>dict_id = 2, dict_filename = ''b.txt'', dict_category = None\<rparr>, 3 / 10, ''k2'')] ''a.txt'' = Some (9 / 10) \<and>
   fused_score [(\<lparr>dict_id = 1, dict_filename = ''a.txt'', dict_category = None\<rparr>, 9 / 10, ''s1'')]
     [(\<lparr>dict_id = 1, dict_filename = ''a.txt'', dict_category = None\<rparr>, 1, ''k1''),
      (\<lparr>dict_id = 2, dict_filename = ''b.txt'', dict_category = None\<rparr>, 3 / 10, ''k2'')] ''b.txt'' = Some (85 / 100)"
proof -
  let ?sem = "[(\<lparr>dict_id = 1, dict_filename = ''a.txt'', dict_category = None\<rparr>, 9 / 10 :: real, ''s1'')]"
  let ?kw = "[(\<lparr>dict_id = 1, dict_filename = ''a.txt'', dict_category = None\<rparr>, 1 :: real, ''k1''),
              (\<lparr>dict_id = 2, dict_filename = ''b.txt'', dict_category = None\<rparr>, 3 / 10, ''k2'')]"
  have d1: "distinct (map hit_key ?sem)" by simp
  have d2: "distinct (map hit_key ?kw)" by (simp add: hit_key_def)
  show ?thesis
    using d1 d2 fusion_scores [OF d1 d2, of 10]
    by (simp add: hit_key_def hit_score_def)
qed

text \<open>
  The two phases give every file name at most once when the table does, so the fusion
  of \<open>hybrid_search\<close> itself has these scores for every query and every table with
  unique file names.
\<close>

lemma semantic_scan_keys:
  "distinct (map filename db) \<Longrightarrow>
   distinct (map hit_key (semantic_scan cosine files query qv thr db)) \<and>
   set (map hit_key (semantic_scan cosine files query qv thr db)) \<subseteq> set (map filename db)"
  by (induction db) (auto simp: Let_def hit_key_def dict_of_def split: option.splits sum.splits)

lemma keyword_scan_keys:
  "distinct (map filename db) \<Longrightarrow>
   distinct (map hit_key (keyword_scan files query ws db)) \<and>
   set (map hit_key (keyword_scan files query ws db)) \<subseteq> set (map filename db)"
  by (induction db) (auto simp: Let_def hit_key_def dict_of_def)

lemma distinct_map_sort_key: "distinct (map f xs) \<Longrightarrow> distinct (map f (sort_key g xs))"
proof -
  assume d: "distinct (map f xs)"
  have "card (set (map f (sort_key g xs))) = card (set (map f xs))"
    by simp
  also have "\<dots> = length (map f xs)"
    using d by (rule distinct_card)
  also have "\<dots> = length (map f (sort_key g xs))"
    by simp
  finally show ?thesis by (rule card_distinct)
qed

lemma distinct_map_py_slice: "distinct (map f xs) \<Longrightarrow> distinct (map f (py_slice xs a b))"
  by (simp add: py_slice_def Let_def take_map [symmetric] drop_map [symmetric] distinct_take distinct_drop del: take_map drop_map)

lemma semantic_search_keys:
  "distinct (map filename db) \<Longrightarrow>
   distinct (map hit_key (semantic_search embed_query cosine files db query limit thr))"
  using semantic_scan_keys [of "filter (\<lambda>t. embedding t \<noteq> None) db"]
  by (auto simp: semantic_search_def Let_def sort_by_score_def distinct_map_filter
      intro!: distinct_map_py_slice distinct_map_sort_key split: sum.splits option.splits)

lemma keyword_search_keys:
  "distinct (map filename db) \<Longrightarrow>
   distinct (map hit_key (keyword_search_enhanced files db query limit))"
  using keyword_scan_keys [of "filter (\<lambda>t. embedding t \<noteq> None) db"]
  by (auto simp: keyword_search_enhanced_def Let_def sort_by_score_def distinct_map_filter
      intro!: distinct_map_py_slice distinct_map_sort_key)

lemma hybrid_search_scores:
  assumes "distinct (map filename db)"
  shows "(\<forall>h\<in>set (semantic_search embed_query cosine files db query (limit * 2) thr).
            fused_score (semantic_search embed_query cosine files db query (limit * 2) thr)
              (keyword_search_enhanced files db query limit) (hit_key h) = Some (hit_score h)) \<and>
         (\<forall>h\<in>set (keyword_search_enhanced files db query limit).
            hit_key h \<notin> hit_key ` set (semantic_search embed_query cosine files db query (limit * 2) thr) \<longrightarrow>
            fused_score (semantic_search embed_query cosine files db query (limit * 2) thr)
              (keyword_search_enhanced files db query limit) (hit_key h) =
              Some (max (85 / 100) (hit_score h))) \<and>
         (\<forall>h\<in>set (hybrid_search embed_query cosine files db query limit thr).
            fused_score (semantic_search embed_query cosine files db query (limit * 2) thr)
              (keyword_search_enhanced files db query limit) (hit_key h) = Some (hit_score h))"
  using fused_score_semantic [OF semantic_search_keys [OF assms]]
        fused_score_keyword [OF keyword_search_keys [OF assms]]
        fuse_carries_fused_score
  unfolding hybrid_search_def by blast

section \<open>Properties of the text cleaner\<close>






































subsection \<open>What the email pattern matches\<close>





















subsection \<open>No email is left\<close>































section \<open>Idempotence of the cleaner\<close>

























end
